theory Spec2Isabelle
  imports Complex_Main
begin

section \<open>Values of the Python program\<close>

text \<open>
  The report generator (\<^verbatim>\<open>data_processor.py\<close>, \<^verbatim>\<open>insights_generator.py\<close>) works on a
  pandas data frame of weekly rows. Finite floating-point numbers are idealised as
  \<^typ>\<open>real\<close>; the non-finite results that numpy and pandas produce instead of raising
  (\<^verbatim>\<open>nan\<close>, \<^verbatim>\<open>inf\<close>) are kept as separate values, since the code branches on
  them silently. Exceptions are values of \<open>py_error\<close>.
\<close>

datatype py_error =
    ValueError string
  | IndexError string
  | KeyError string
  | TypeError string

datatype npfloat = Finite real | NaN | PosInf | NegInf

datatype pyval = PyFloat npfloat | PyInt int | PyStr string

text \<open>Comparison of floats: every comparison with \<^verbatim>\<open>nan\<close> is false.\<close>

fun np_less :: "npfloat \<Rightarrow> npfloat \<Rightarrow> bool" where
  "np_less NaN _ = False"
| "np_less _ NaN = False"
| "np_less (Finite a) (Finite b) = (a < b)"
| "np_less (Finite a) PosInf = True"
| "np_less (Finite a) NegInf = False"
| "np_less PosInf _ = False"
| "np_less NegInf NegInf = False"
| "np_less NegInf _ = True"

fun np_isnan :: "npfloat \<Rightarrow> bool" where
  "np_isnan NaN = True"
| "np_isnan _ = False"

text \<open>Float division as numpy does it on scalars: a zero divisor gives \<^verbatim>\<open>nan\<close> or
  \<^verbatim>\<open>inf\<close> with a warning, never an exception.\<close>

fun np_div :: "npfloat \<Rightarrow> npfloat \<Rightarrow> npfloat" where
  "np_div NaN _ = NaN"
| "np_div _ NaN = NaN"
| "np_div (Finite a) (Finite b) =
     (if b \<noteq> 0 then Finite (a / b)
      else if a = 0 then NaN else if 0 < a then PosInf else NegInf)"
| "np_div (Finite a) _ = Finite 0"
| "np_div PosInf (Finite b) = (if 0 \<le> b then PosInf else NegInf)"
| "np_div NegInf (Finite b) = (if 0 \<le> b then NegInf else PosInf)"
| "np_div _ _ = NaN"

text \<open>\<^verbatim>\<open>x * c\<close> and \<^verbatim>\<open>(x - 1) * 100\<close> on a float that may be non-finite, for a
  positive constant factor.\<close>

fun np_affine :: "real \<Rightarrow> real \<Rightarrow> npfloat \<Rightarrow> npfloat" where
  "np_affine s c (Finite a) = Finite ((a - s) * c)"
| "np_affine s c x = x"

text \<open>\<^verbatim>\<open>x ** y\<close> on numpy scalars: a negative base with a fractional exponent is
  \<^verbatim>\<open>nan\<close>.\<close>

definition np_power :: "real \<Rightarrow> real \<Rightarrow> npfloat" where
  "np_power x y =
     (if 0 < x then Finite (x powr y)
      else if x = 0 then (if 0 < y then Finite 0 else if y = 0 then Finite 1 else PosInf)
      else if y = of_int \<lfloor>y\<rfloor> then Finite (x powi \<lfloor>y\<rfloor>)
      else NaN)"

text \<open>Positional indexing \<^verbatim>\<open>iloc[i]\<close>: negative positions count from the end, a
  position outside the frame raises \<^verbatim>\<open>IndexError\<close>.\<close>

definition iloc :: "'a list \<Rightarrow> int \<Rightarrow> py_error + 'a" where
  "iloc frame pos =
     (if 0 \<le> pos \<and> pos < int (length frame) then Inr (frame ! nat pos)
      else if pos < 0 \<and> - int (length frame) \<le> pos
      then Inr (frame ! nat (int (length frame) + pos))
      else Inl (IndexError ''single positional indexer is out-of-bounds''))"

section \<open>Series reductions of pandas and numpy\<close>

definition pd_mean :: "real list \<Rightarrow> npfloat" where
  "pd_mean xs = (if xs = [] then NaN else Finite (sum_list xs / real (length xs)))"

definition pd_max :: "real list \<Rightarrow> npfloat" where
  "pd_max xs = (if xs = [] then NaN else Finite (fold max (tl xs) (hd xs)))"

definition pd_min :: "real list \<Rightarrow> npfloat" where
  "pd_min xs = (if xs = [] then NaN else Finite (fold min (tl xs) (hd xs)))"

text \<open>\<^verbatim>\<open>Series.std()\<close> is the sample standard deviation (one delta degree of freedom);
  pandas returns \<^verbatim>\<open>nan\<close> when the series has at most one observation.\<close>

definition pd_std :: "real list \<Rightarrow> npfloat" where
  "pd_std xs =
     (if length xs \<le> 1 then NaN
      else let m = sum_list xs / real (length xs)
           in Finite (sqrt (sum_list (map (\<lambda>x. (x - m)\<^sup>2) xs) / real (length xs - 1))))"

definition pd_median :: "real list \<Rightarrow> npfloat" where
  "pd_median xs =
     (if xs = [] then NaN
      else let s = sort xs; n = length xs
           in if odd n then Finite (s ! (n div 2))
              else Finite ((s ! (n div 2 - 1) + s ! (n div 2)) / 2))"

text \<open>\<^verbatim>\<open>rolling(window=3).mean().iloc[-1]\<close>: the mean of the last three observations,
  \<^verbatim>\<open>nan\<close> while fewer than three exist.\<close>

definition rolling3_mean_last :: "real list \<Rightarrow> npfloat" where
  "rolling3_mean_last xs =
     (if length xs < 3 then NaN
      else Finite (sum_list (drop (length xs - 3) xs) / 3))"

text \<open>\<^verbatim>\<open>np.polyfit(range(n), ys, 1)[0]\<close>: the least-squares slope of \<open>ys\<close> against
  the zero-based index.\<close>

definition polyfit1_slope :: "real list \<Rightarrow> real" where
  "polyfit1_slope ys =
     (let n = real (length ys);
          xs = map real [0..<length ys];
          sx = sum_list xs;
          sy = sum_list ys;
          sxy = sum_list (map2 (*) xs ys);
          sxx = sum_list (map (\<lambda>x. x * x) xs)
      in (n * sxy - sx * sy) / (n * sxx - sx * sx))"

text \<open>
  \<^verbatim>\<open>Series.value_counts()\<close>: pandas counts the labels in a hash table that keeps
  them in order of first appearance (\<open>value_count\<close>), then sorts the counts in
  descending order by reversing, sorting ascending and reversing again
  (\<open>sort_values_desc\<close>). The ascending sort is the one of the installed numpy, of the
  kind that the installed pandas asks for; the repository pins neither, and released
  versions differ in the order they leave equal counts in. So that sort is a parameter
  \<open>srt\<close> of the model, and nothing but what every version documents is assumed of it,
  where a theorem needs it. Missing labels are dropped by pandas; the cleaned frame has
  none, since \<^verbatim>\<open>clean_data\<close> replaces them by a placeholder label.
\<close>

type_synonym 'a count_sort = "('a \<times> nat) list \<Rightarrow> ('a \<times> nat) list"

fun count_label :: "'a \<Rightarrow> ('a \<times> nat) list \<Rightarrow> ('a \<times> nat) list" where
  "count_label k [] = [(k, 1)]"
| "count_label k ((k', c) # kcs) =
     (if k = k' then (k', Suc c) # kcs else (k', c) # count_label k kcs)"

definition value_count :: "'a list \<Rightarrow> ('a \<times> nat) list" where
  "value_count xs = fold count_label xs []"

definition sort_values_desc :: "'a count_sort \<Rightarrow> ('a \<times> nat) list \<Rightarrow> ('a \<times> nat) list" where
  "sort_values_desc srt kcs = rev (srt (rev kcs))"

definition value_counts :: "'a count_sort \<Rightarrow> 'a list \<Rightarrow> ('a \<times> nat) list" where
  "value_counts srt xs = sort_values_desc srt (value_count xs)"

section \<open>The data processor\<close>

text \<open>
  A row of the data frame, with the column names of the CSV file. Dates are
  timestamps (only their order is used by the code modelled here), sales are
  floats, orders are integers, product and customer are labels.
\<close>

record row =
  Week_Start :: int
  Week_End :: int
  Total_Sales :: real
  Total_Orders :: int
  Top_Product :: string
  Top_Customer :: string

type_synonym data_frame = "row list"

subsection \<open>\<^verbatim>\<open>_validate_data_integrity\<close>\<close>

text \<open>
  The result is the list of warnings written to the log, in order, together with
  the raised \<^verbatim>\<open>ValueError\<close> or the normal return.
\<close>

definition validate_data_integrity :: "data_frame \<Rightarrow> string list \<times> (py_error + unit)" where
  "validate_data_integrity data =
     (if list_ex (\<lambda>r. Total_Sales r < 0) data \<or> list_ex (\<lambda>r. Total_Orders r < 0) data
      then ([], Inl (ValueError ''Data contains negative values for sales or orders''))
      else
        let max_reasonable_sales = np_affine 0 10 (pd_median (map Total_Sales data));
            warnings =
              (if list_ex (\<lambda>r. np_less max_reasonable_sales (Finite (Total_Sales r))) data
               then [''Data contains unusually high sales values''] else [])
        in if list_ex (\<lambda>r. Week_End r \<le> Week_Start r) data
           then (warnings, Inl (ValueError ''Data contains weeks where end date is before start date''))
           else (warnings, Inr ()))"

subsection \<open>The metrics dictionary\<close>

text \<open>The dates of the current week are kept as the timestamps of the row; the four
  strings that \<^verbatim>\<open>strftime\<close> formats from them carry no further information.\<close>

record week_core =
  sales :: real
  orders :: int

record current_week_dict = week_core +
  top_product :: string
  top_customer :: string
  week_start :: int
  week_end :: int

record changes_dict =
  sales_change :: real
  orders_change :: real
  sales_absolute_change :: real
  orders_absolute_change :: int

record aov_dict =
  current :: real
  previous :: real
  change :: real

record historical_dict =
  total_sales :: real
  total_orders :: int
  average_weekly_sales :: npfloat
  average_weekly_orders :: npfloat
  max_weekly_sales :: npfloat
  min_weekly_sales :: npfloat
  sales_std_dev :: npfloat
  weeks_count :: nat
  sales_growth_rate :: npfloat
  orders_growth_rate :: npfloat

record products_dict =
  most_frequent_top_product :: string
  product_frequency :: "(string \<times> nat) list"
  unique_products_count :: nat
  current_top_product :: string

record customers_dict =
  most_frequent_top_customer :: string
  customer_frequency :: "(string \<times> nat) list"
  unique_customers_count :: nat
  current_top_customer :: string

text \<open>The trend dictionary has different keys in its two shapes, so it is kept as a
  dictionary: an association list from key to value.\<close>

type_synonym trends_dict = "(string \<times> pyval) list"

text \<open>The insights generator tests four of the keys with \<^verbatim>\<open>in\<close> before using them;
  those may be absent from a metrics dictionary.\<close>

record metrics =
  current_week :: current_week_dict
  previous_week :: week_core
  changes :: changes_dict
  aov :: aov_dict
  historical :: "historical_dict option"
  products :: "products_dict option"
  customers :: "customers_dict option"
  trends :: "trends_dict option"

subsection \<open>The computations\<close>

definition calculate_percentage_change :: "real \<Rightarrow> real \<Rightarrow> real" where
  "calculate_percentage_change cur prev =
     (if prev = 0 then (if 0 < cur then 100 else 0)
      else ((cur - prev) / prev) * 100)"

text \<open>Integer columns are idealised as unbounded integers and float columns as reals, so
  the sums of the historical aggregates are exact; an int64 column wraps around beyond
  \<open>2^63\<close>, which is outside this model.\<close>

text \<open>\<^verbatim>\<open>_calculate_growth_rate(data, column)\<close>, on the selected column.\<close>

definition calculate_growth_rate :: "real list \<Rightarrow> npfloat" where
  "calculate_growth_rate col =
     (if length col < 2 then Finite 0
      else
        let first_value = hd col;
            last_value = last col;
            periods = length col - 1
        in if first_value \<le> 0 then Finite 0
           else np_affine 1 100 (np_power (last_value / first_value) (1 / real periods)))"

definition calculate_historical_metrics :: "data_frame \<Rightarrow> historical_dict" where
  "calculate_historical_metrics data =
     \<lparr> total_sales = sum_list (map Total_Sales data),
       total_orders = sum_list (map Total_Orders data),
       average_weekly_sales = pd_mean (map Total_Sales data),
       average_weekly_orders = pd_mean (map (\<lambda>r. real_of_int (Total_Orders r)) data),
       max_weekly_sales = pd_max (map Total_Sales data),
       min_weekly_sales = pd_min (map Total_Sales data),
       sales_std_dev = pd_std (map Total_Sales data),
       weeks_count = length data,
       sales_growth_rate = calculate_growth_rate (map Total_Sales data),
       orders_growth_rate = calculate_growth_rate (map (\<lambda>r. real_of_int (Total_Orders r)) data) \<rparr>"

definition analyze_products :: "string count_sort \<Rightarrow> data_frame \<Rightarrow> py_error + products_dict" where
  "analyze_products srt data =
     (let product_counts = value_counts srt (map Top_Product data)
      in case iloc data (- 1) of
           Inl e \<Rightarrow> Inl e
         | Inr latest \<Rightarrow>
             Inr \<lparr> most_frequent_top_product =
                     (if product_counts \<noteq> [] then fst (hd product_counts) else ''None''),
                   product_frequency = product_counts,
                   unique_products_count = length product_counts,
                   current_top_product = Top_Product latest \<rparr>)"

definition analyze_customers :: "string count_sort \<Rightarrow> data_frame \<Rightarrow> py_error + customers_dict" where
  "analyze_customers srt data =
     (let customer_counts = value_counts srt (map Top_Customer data)
      in case iloc data (- 1) of
           Inl e \<Rightarrow> Inl e
         | Inr latest \<Rightarrow>
             Inr \<lparr> most_frequent_top_customer =
                     (if customer_counts \<noteq> [] then fst (hd customer_counts) else ''None''),
                   customer_frequency = customer_counts,
                   unique_customers_count = length customer_counts,
                   current_top_customer = Top_Customer latest \<rparr>)"

definition trend_direction :: "real \<Rightarrow> string" where
  "trend_direction slope =
     (if 0 < slope then ''increasing'' else if slope < 0 then ''decreasing'' else ''stable'')"

definition latest_ma3 :: "real list \<Rightarrow> pyval" where
  "latest_ma3 col =
     (if \<not> np_isnan (rolling3_mean_last col) then PyFloat (rolling3_mean_last col) else PyInt 0)"

definition calculate_trends :: "data_frame \<Rightarrow> trends_dict" where
  "calculate_trends data =
     (if length data < 3 then [(''status'', PyStr ''insufficient_data'')]
      else
        let sales_col = map Total_Sales data;
            orders_col = map (\<lambda>r. real_of_int (Total_Orders r)) data;
            sales_trend = polyfit1_slope sales_col;
            orders_trend = polyfit1_slope orders_col;
            sales_cv = np_div (pd_std sales_col) (pd_mean sales_col);
            orders_cv = np_div (pd_std orders_col) (pd_mean orders_col)
        in [(''sales_trend_slope'', PyFloat (Finite sales_trend)),
            (''orders_trend_slope'', PyFloat (Finite orders_trend)),
            (''sales_trend_direction'', PyStr (trend_direction sales_trend)),
            (''orders_trend_direction'', PyStr (trend_direction orders_trend)),
            (''sales_volatility'', PyFloat sales_cv),
            (''orders_volatility'', PyFloat orders_cv),
            (''latest_ma3_sales'', latest_ma3 sales_col),
            (''latest_ma3_orders'', latest_ma3 orders_col)])"

text \<open>
  \<^verbatim>\<open>calculate_metrics\<close> reads the processed frame of the processor, which is
  \<^verbatim>\<open>None\<close> until \<^verbatim>\<open>clean_data\<close> has stored a validated frame. Any exception
  raised inside is logged and raised again unchanged. The sort that pandas uses in
  \<^verbatim>\<open>value_counts\<close> is passed down to the two frequency analyses.
\<close>

definition calculate_metrics :: "string count_sort \<Rightarrow> data_frame option \<Rightarrow> py_error + metrics" where
  "calculate_metrics srt processed_data =
     (case processed_data of
        None \<Rightarrow> Inl (ValueError ''No processed data available. Call clean_data() first.'')
      | Some data \<Rightarrow>
         (case iloc data (- 1) of
            Inl e \<Rightarrow> Inl e
          | Inr latest_week \<Rightarrow>
             (case (if 1 < length data then iloc data (- 2) else Inr latest_week) of
                Inl e \<Rightarrow> Inl e
              | Inr prev_week \<Rightarrow>
                 let current_sales = Total_Sales latest_week;
                     previous_sales = Total_Sales prev_week;
                     current_orders = Total_Orders latest_week;
                     previous_orders = Total_Orders prev_week;
                     current_aov =
                       (if 0 < current_orders then current_sales / real_of_int current_orders else 0);
                     previous_aov =
                       (if 0 < previous_orders then previous_sales / real_of_int previous_orders else 0)
                 in case analyze_products srt data of
                      Inl e \<Rightarrow> Inl e
                    | Inr prods \<Rightarrow>
                       (case analyze_customers srt data of
                          Inl e \<Rightarrow> Inl e
                        | Inr custs \<Rightarrow>
                           Inr \<lparr> current_week =
                                   \<lparr> sales = current_sales,
                                     orders = current_orders,
                                     top_product = Top_Product latest_week,
                                     top_customer = Top_Customer latest_week,
                                     week_start = Week_Start latest_week,
                                     week_end = Week_End latest_week \<rparr>,
                                 previous_week =
                                   \<lparr> sales = previous_sales, orders = previous_orders \<rparr>,
                                 changes =
                                   \<lparr> sales_change =
                                       calculate_percentage_change current_sales previous_sales,
                                     orders_change =
                                       calculate_percentage_change
                                         (real_of_int current_orders) (real_of_int previous_orders),
                                     sales_absolute_change = current_sales - previous_sales,
                                     orders_absolute_change = current_orders - previous_orders \<rparr>,
                                 aov =
                                   \<lparr> current = current_aov,
                                     previous = previous_aov,
                                     change = calculate_percentage_change current_aov previous_aov \<rparr>,
                                 historical = Some (calculate_historical_metrics data),
                                 products = Some prods,
                                 customers = Some custs,
                                 trends = Some (calculate_trends data) \<rparr>))))"

section \<open>The insights generator\<close>

definition get_performance_qualifier :: "real \<Rightarrow> string" where
  "get_performance_qualifier c =
     (if 20 \<le> \<bar>c\<bar> then ''dramatically''
      else if 10 \<le> \<bar>c\<bar> then ''significantly''
      else if 5 \<le> \<bar>c\<bar> then ''moderately''
      else ''slightly'')"

definition get_status_level :: "real \<Rightarrow> string" where
  "get_status_level c =
     (if 10 \<le> c then ''excellent''
      else if 5 \<le> c then ''good''
      else if 0 \<le> c then ''fair''
      else if - 5 \<le> c then ''concerning''
      else ''critical'')"

text \<open>Dictionary subscript and the comparison \<^verbatim>\<open>v > c\<close> of a dictionary value with
  a float constant.\<close>

definition dict_item :: "trends_dict \<Rightarrow> string \<Rightarrow> py_error + pyval" where
  "dict_item d k = (case map_of d k of None \<Rightarrow> Inl (KeyError k) | Some v \<Rightarrow> Inr v)"

fun py_gt :: "pyval \<Rightarrow> real \<Rightarrow> py_error + bool" where
  "py_gt (PyFloat x) c = Inr (np_less (Finite c) x)"
| "py_gt (PyInt i) c = Inr (c < real_of_int i)"
| "py_gt (PyStr s) c = Inl (TypeError ''> not supported between instances of str and float'')"

text \<open>A recommendation; the icon is kept as its Unicode code points.\<close>

record recommendation =
  priority :: string
  category :: string
  title :: string
  description :: string
  expected_impact :: string
  timeline :: string
  icon :: "nat list"

definition rec_sales_recovery :: recommendation where
  "rec_sales_recovery =
     \<lparr> priority = ''High'', category = ''Sales Recovery'',
       title = ''Implement Sales Recovery Plan'',
       description = ''Sales have declined significantly. Consider promotional campaigns, customer outreach, or market analysis.'',
       expected_impact = ''High'', timeline = ''1-2 weeks'', icon = [0x1F6A8] \<rparr>"

definition rec_growth_optimization :: recommendation where
  "rec_growth_optimization =
     \<lparr> priority = ''Medium'', category = ''Growth Optimization'',
       title = ''Scale Successful Strategies'',
       description = ''Strong sales growth achieved. Identify and replicate successful strategies to sustain momentum.'',
       expected_impact = ''High'', timeline = ''2-4 weeks'', icon = [0x1F680] \<rparr>"

definition rec_customer_acquisition :: recommendation where
  "rec_customer_acquisition =
     \<lparr> priority = ''Medium'', category = ''Customer Acquisition'',
       title = ''Focus on Customer Acquisition'',
       description = ''Fewer orders but higher AOV suggests need for broader customer reach while maintaining quality.'',
       expected_impact = ''Medium'', timeline = ''3-4 weeks'', icon = [0x1F3AF] \<rparr>"

definition rec_revenue_optimization :: recommendation where
  "rec_revenue_optimization =
     \<lparr> priority = ''Medium'', category = ''Revenue Optimization'',
       title = ''Implement Upselling Strategies'',
       description = ''More orders but lower AOV. Consider product bundling, premium options, or cross-selling.'',
       expected_impact = ''Medium'', timeline = ''2-3 weeks'', icon = [0x1F4B0] \<rparr>"

definition rec_product_strategy :: recommendation where
  "rec_product_strategy =
     \<lparr> priority = ''Low'', category = ''Product Strategy'',
       title = ''Diversify Product Portfolio'',
       description = ''Limited product variety in top performers. Analyze market opportunities for expansion.'',
       expected_impact = ''Medium'', timeline = ''4-8 weeks'', icon = [0x1F4E6] \<rparr>"

definition rec_business_stability :: recommendation where
  "rec_business_stability =
     \<lparr> priority = ''Medium'', category = ''Business Stability'',
       title = ''Reduce Business Volatility'',
       description = ''High sales volatility detected. Review operational processes and market factors.'',
       expected_impact = ''High'', timeline = ''4-6 weeks'', icon = [0x2696, 0xFE0F] \<rparr>"

definition rec_growth_acceleration :: recommendation where
  "rec_growth_acceleration =
     \<lparr> priority = ''Low'', category = ''Growth Acceleration'',
       title = ''Accelerate Growth Initiatives'',
       description = ''Moderate growth rate suggests room for improvement. Consider market expansion or innovation.'',
       expected_impact = ''Medium'', timeline = ''6-12 weeks'', icon = [0x1F4C8] \<rparr>"

text \<open>The five blocks of \<^verbatim>\<open>_generate_recommendations\<close>, each giving the entries it
  appends; only the trend block can raise.\<close>

definition sales_recommendations :: "metrics \<Rightarrow> recommendation list" where
  "sales_recommendations m =
     (let sc = sales_change (changes m)
      in if sc < - 5 then [rec_sales_recovery]
         else if 10 < sc then [rec_growth_optimization]
         else [])"

definition order_recommendations :: "metrics \<Rightarrow> recommendation list" where
  "order_recommendations m =
     (let oc = orders_change (changes m); ac = change (aov m)
      in if oc < 0 \<and> 0 < ac then [rec_customer_acquisition]
         else if 0 < oc \<and> ac < 0 then [rec_revenue_optimization]
         else [])"

definition product_recommendations :: "metrics \<Rightarrow> recommendation list" where
  "product_recommendations m =
     (case products m of
        None \<Rightarrow> []
      | Some p \<Rightarrow> if unique_products_count p < 3 then [rec_product_strategy] else [])"

definition trend_recommendations :: "metrics \<Rightarrow> py_error + recommendation list" where
  "trend_recommendations m =
     (case trends m of
        None \<Rightarrow> Inr []
      | Some t \<Rightarrow>
          if map_of t ''status'' \<noteq> Some (PyStr ''insufficient_data'')
          then (case dict_item t ''sales_volatility'' of
                  Inl e \<Rightarrow> Inl e
                | Inr v \<Rightarrow>
                   (case py_gt v 0.2 of
                      Inl e \<Rightarrow> Inl e
                    | Inr b \<Rightarrow> Inr (if b then [rec_business_stability] else [])))
          else Inr [])"

definition growth_recommendations :: "metrics \<Rightarrow> recommendation list" where
  "growth_recommendations m =
     (case historical m of
        None \<Rightarrow> []
      | Some h \<Rightarrow>
          let growth_rate = sales_growth_rate h
          in if np_less (Finite 0) growth_rate \<and> np_less growth_rate (Finite 5)
             then [rec_growth_acceleration] else [])"

definition generate_recommendations :: "metrics \<Rightarrow> py_error + recommendation list" where
  "generate_recommendations m =
     (case trend_recommendations m of
        Inl e \<Rightarrow> Inl e
      | Inr trend_recs \<Rightarrow>
          Inr (sales_recommendations m @ order_recommendations m @ product_recommendations m
               @ trend_recs @ growth_recommendations m))"

section \<open>Auxiliary definitions for the statements\<close>

text \<open>The row that \<^verbatim>\<open>calculate_metrics\<close> takes as the previous week.\<close>

definition prev_row :: "data_frame \<Rightarrow> row" where
  "prev_row data = (if 1 < length data then data ! (length data - 2) else last data)"

text \<open>The eight weeks of \<^verbatim>\<open>load_sample_data\<close>; dates are days since 2025-01-01.\<close>

definition mk_row :: "int \<Rightarrow> int \<Rightarrow> real \<Rightarrow> int \<Rightarrow> string \<Rightarrow> string \<Rightarrow> row" where
  "mk_row ws we s n p c =
     \<lparr> Week_Start = ws, Week_End = we, Total_Sales = s, Total_Orders = n,
       Top_Product = p, Top_Customer = c \<rparr>"

definition sample_data :: data_frame where
  "sample_data =
     [mk_row 5 11 12500 45 ''Laptop'' ''Alpha Corp'',
      mk_row 12 18 15800 52 ''Smartphone'' ''Beta Ltd'',
      mk_row 19 25 14200 48 ''Tablet'' ''Gamma LLC'',
      mk_row 26 32 16950 55 ''Monitor'' ''Delta Inc'',
      mk_row 33 39 18100 60 ''Printer'' ''Epsilon Co'',
      mk_row 40 46 17500 57 ''Keyboard'' ''Zeta Enterprises'',
      mk_row 47 53 19000 62 ''Mouse'' ''Eta Traders'',
      mk_row 54 60 20050 65 ''Headphones'' ''Theta Solutions'']"







text \<open>The soft check of the validation: some sales value exceeds ten times the median.\<close>

definition sales_outlier :: "data_frame \<Rightarrow> bool" where
  "sales_outlier data =
     list_ex (\<lambda>r. np_less (np_affine 0 10 (pd_median (map Total_Sales data)))
                     (Finite (Total_Sales r))) data"

text \<open>
  The validation as the specification words it, for comparison with
  \<open>validate_data_integrity\<close>: negative values first, then the date check, and the soft
  check last.
\<close>

definition validate_spec_order :: "data_frame \<Rightarrow> string list \<times> (py_error + unit)" where
  "validate_spec_order data =
     (if list_ex (\<lambda>r. Total_Sales r < 0) data \<or> list_ex (\<lambda>r. Total_Orders r < 0) data
      then ([], Inl (ValueError ''Data contains negative values for sales or orders''))
      else if list_ex (\<lambda>r. Week_End r \<le> Week_Start r) data
      then ([], Inl (ValueError ''Data contains weeks where end date is before start date''))
      else if sales_outlier data
      then ([''Data contains unusually high sales values''], Inr ())
      else ([], Inr ()))"

text \<open>A frame with an unusually high sales value and a week that ends on the day it
  starts, and a frame with a negative sales value.\<close>

definition outlier_and_date_frame :: data_frame where
  "outlier_and_date_frame =
     [mk_row 0 6 1 1 ''Laptop'' ''Alpha Corp'',
      mk_row 7 13 1 1 ''Laptop'' ''Alpha Corp'',
      mk_row 14 14 100 1 ''Laptop'' ''Alpha Corp'']"

definition negative_frame :: data_frame where
  "negative_frame = [mk_row 0 6 (- 1) 1 ''Laptop'' ''Alpha Corp'']"

text \<open>A metrics dictionary with a given historical sales growth rate, no change in any
  metric and no product, customer or trend entry.\<close>

definition growth_metrics :: "npfloat \<Rightarrow> metrics" where
  "growth_metrics g =
     \<lparr> current_week = \<lparr> sales = 0, orders = 0, top_product = [], top_customer = [],
                         week_start = 0, week_end = 0 \<rparr>,
       previous_week = \<lparr> sales = 0, orders = 0 \<rparr>,
       changes = \<lparr> sales_change = 0, orders_change = 0, sales_absolute_change = 0,
                    orders_absolute_change = 0 \<rparr>,
       aov = \<lparr> current = 0, previous = 0, change = 0 \<rparr>,
       historical = Some (calculate_historical_metrics []\<lparr> sales_growth_rate := g \<rparr>),
       products = None, customers = None, trends = None \<rparr>"

section \<open>Positional indexing and the shape of the metrics\<close>

lemma iloc_last: "xs \<noteq> [] \<Longrightarrow> iloc xs (- 1) = Inr (last xs)"
  by (cases xs rule: rev_cases) (simp_all add: iloc_def nth_append)

lemma iloc_empty: "iloc [] i = Inl (IndexError ''single positional indexer is out-of-bounds'')"
  by (simp add: iloc_def)

lemma iloc_second_last: "1 < length xs \<Longrightarrow> iloc xs (- 2) = Inr (xs ! (length xs - 2))"
proof -
  assume a: "1 < length xs"
  then have "nat (int (length xs) + - 2) = length xs - 2" by linarith
  with a show ?thesis by (simp add: iloc_def)
qed

lemma analyze_products_Inr:
  "data \<noteq> [] \<Longrightarrow> analyze_products srt data =
     Inr \<lparr> most_frequent_top_product =
             (if value_counts srt (map Top_Product data) \<noteq> []
              then fst (hd (value_counts srt (map Top_Product data))) else ''None''),
           product_frequency = value_counts srt (map Top_Product data),
           unique_products_count = length (value_counts srt (map Top_Product data)),
           current_top_product = Top_Product (last data) \<rparr>"
  by (simp add: analyze_products_def iloc_last Let_def)

lemma analyze_customers_Inr:
  "data \<noteq> [] \<Longrightarrow> analyze_customers srt data =
     Inr \<lparr> most_frequent_top_customer =
             (if value_counts srt (map Top_Customer data) \<noteq> []
              then fst (hd (value_counts srt (map Top_Customer data))) else ''None''),
           customer_frequency = value_counts srt (map Top_Customer data),
           unique_customers_count = length (value_counts srt (map Top_Customer data)),
           current_top_customer = Top_Customer (last data) \<rparr>"
  by (simp add: analyze_customers_def iloc_last Let_def)

text \<open>On a frame with at least one row \<^verbatim>\<open>calculate_metrics\<close> returns, and these are
  the entries of the dictionary it returns.\<close>

lemma calculate_metrics_nonempty:
  assumes "data \<noteq> []"
  shows "\<exists>m. calculate_metrics srt (Some data) = Inr m
     \<and> sales (current_week m) = Total_Sales (last data)
     \<and> orders (current_week m) = Total_Orders (last data)
     \<and> sales (previous_week m) = Total_Sales (prev_row data)
     \<and> orders (previous_week m) = Total_Orders (prev_row data)
     \<and> sales_change (changes m) =
         calculate_percentage_change (sales (current_week m)) (sales (previous_week m))
     \<and> orders_change (changes m) =
         calculate_percentage_change (real_of_int (orders (current_week m)))
           (real_of_int (orders (previous_week m)))
     \<and> current (aov m) =
         (if 0 < orders (current_week m)
          then sales (current_week m) / real_of_int (orders (current_week m)) else 0)
     \<and> previous (aov m) =
         (if 0 < orders (previous_week m)
          then sales (previous_week m) / real_of_int (orders (previous_week m)) else 0)
     \<and> change (aov m) = calculate_percentage_change (current (aov m)) (previous (aov m))
     \<and> historical m = Some (calculate_historical_metrics data)
     \<and> analyze_products srt data = Inr (the (products m)) \<and> products m \<noteq> None
     \<and> analyze_customers srt data = Inr (the (customers m)) \<and> customers m \<noteq> None
     \<and> trends m = Some (calculate_trends data)"
proof (cases "1 < length data")
  case True
  with assms show ?thesis
    by (simp add: calculate_metrics_def iloc_last iloc_second_last analyze_products_Inr
        analyze_customers_Inr prev_row_def Let_def)
next
  case False
  with assms show ?thesis
    by (simp add: calculate_metrics_def iloc_last analyze_products_Inr
        analyze_customers_Inr prev_row_def Let_def)
qed

lemma percentage_change_same: "calculate_percentage_change x x = 0"
  by (simp add: calculate_percentage_change_def)

lemma sample_data_nonempty: "sample_data \<noteq> []"
  by (simp add: sample_data_def)

section \<open>Percentage change\<close>

text \<open>
  C1. For all real \<open>cur\<close> and \<open>prev\<close>, \<^verbatim>\<open>_calculate_percentage_change\<close> returns 100
  when \<open>prev = 0\<close> and \<open>cur > 0\<close>, 0 when \<open>prev = 0\<close> and \<open>cur \<le> 0\<close>, and
  \<open>(cur - prev) / prev * 100\<close> otherwise; and on every frame with a row the sales
  change, the orders change and the AOV change of the metrics are this function of the
  current and the previous value.
\<close>

theorem percentage_change_rule:
  "(prev = 0 \<and> 0 < cur \<longrightarrow> calculate_percentage_change cur prev = 100)
   \<and> (prev = 0 \<and> cur \<le> 0 \<longrightarrow> calculate_percentage_change cur prev = 0)
   \<and> (prev \<noteq> 0 \<longrightarrow> calculate_percentage_change cur prev = (cur - prev) / prev * 100)
   \<and> (data \<noteq> [] \<longrightarrow>
        (\<exists>m. calculate_metrics srt (Some data) = Inr m
          \<and> sales_change (changes m) =
              calculate_percentage_change (sales (current_week m)) (sales (previous_week m))
          \<and> orders_change (changes m) =
              calculate_percentage_change (real_of_int (orders (current_week m)))
                (real_of_int (orders (previous_week m)))
          \<and> change (aov m) =
              calculate_percentage_change (current (aov m)) (previous (aov m))))"
proof -
  have "data \<noteq> [] \<longrightarrow>
        (\<exists>m. calculate_metrics srt (Some data) = Inr m
          \<and> sales_change (changes m) =
              calculate_percentage_change (sales (current_week m)) (sales (previous_week m))
          \<and> orders_change (changes m) =
              calculate_percentage_change (real_of_int (orders (current_week m)))
                (real_of_int (orders (previous_week m)))
          \<and> change (aov m) =
              calculate_percentage_change (current (aov m)) (previous (aov m)))"
    using calculate_metrics_nonempty[of data srt] by blast
  then show ?thesis by (simp add: calculate_percentage_change_def)
qed

theorem percentage_change_rule_witness:
  "calculate_percentage_change 5 0 = 100
   \<and> (\<exists>m. calculate_metrics (sort_key snd) (Some sample_data) = Inr m
          \<and> sales_change (changes m) =
              calculate_percentage_change (sales (current_week m)) (sales (previous_week m))
          \<and> orders_change (changes m) =
              calculate_percentage_change (real_of_int (orders (current_week m)))
                (real_of_int (orders (previous_week m)))
          \<and> change (aov m) =
              calculate_percentage_change (current (aov m)) (previous (aov m)))"
  using percentage_change_rule
          [where prev = 0 and cur = 5 and data = sample_data and srt = "sort_key snd"]
        sample_data_nonempty
  by simp

section \<open>The empty frame and the single-row frame\<close>

text \<open>
  C5. Computing the metrics of an empty frame raises (the position \<open>-1\<close> of
  \<^verbatim>\<open>data.iloc[-1]\<close> is out of bounds) and returns no metrics; one row is enough for
  the computation to return.
\<close>

theorem metrics_empty_raises:
  "calculate_metrics srt (Some []) = Inl (IndexError ''single positional indexer is out-of-bounds'')
   \<and> (data \<noteq> [] \<longrightarrow> (\<exists>m. calculate_metrics srt (Some data) = Inr m))"
proof -
  have "calculate_metrics srt (Some []) = Inl (IndexError ''single positional indexer is out-of-bounds'')"
    by (simp add: calculate_metrics_def iloc_empty)
  moreover have "data \<noteq> [] \<longrightarrow> (\<exists>m. calculate_metrics srt (Some data) = Inr m)"
    using calculate_metrics_nonempty[of data srt] by blast
  ultimately show ?thesis by simp
qed

theorem metrics_empty_raises_witness:
  "\<exists>m. calculate_metrics (sort_key snd) (Some sample_data) = Inr m"
  using metrics_empty_raises[where data = sample_data and srt = "sort_key snd"] sample_data_nonempty by simp

text \<open>
  C7. On a frame of exactly one row the previous week is the current week, and the
  sales change, the orders change and the AOV change are all 0 (whatever the values
  of the row are, so in particular when they are positive or zero).
\<close>

theorem single_record_changes_zero:
  "\<exists>m. calculate_metrics srt (Some [r]) = Inr m
     \<and> sales (previous_week m) = sales (current_week m)
     \<and> orders (previous_week m) = orders (current_week m)
     \<and> sales (current_week m) = Total_Sales r
     \<and> orders (current_week m) = Total_Orders r
     \<and> sales_change (changes m) = 0
     \<and> orders_change (changes m) = 0
     \<and> change (aov m) = 0"
proof -
  obtain m where m: "calculate_metrics srt (Some [r]) = Inr m"
     "sales (current_week m) = Total_Sales (last [r])"
     "orders (current_week m) = Total_Orders (last [r])"
     "sales (previous_week m) = Total_Sales (prev_row [r])"
     "orders (previous_week m) = Total_Orders (prev_row [r])"
     "sales_change (changes m) =
         calculate_percentage_change (sales (current_week m)) (sales (previous_week m))"
     "orders_change (changes m) =
         calculate_percentage_change (real_of_int (orders (current_week m)))
           (real_of_int (orders (previous_week m)))"
     "current (aov m) =
         (if 0 < orders (current_week m)
          then sales (current_week m) / real_of_int (orders (current_week m)) else 0)"
     "previous (aov m) =
         (if 0 < orders (previous_week m)
          then sales (previous_week m) / real_of_int (orders (previous_week m)) else 0)"
     "change (aov m) = calculate_percentage_change (current (aov m)) (previous (aov m))"
    using calculate_metrics_nonempty[of "[r]" srt] by auto
  have p: "prev_row [r] = r" by (simp add: prev_row_def)
  from m p show ?thesis by (intro exI[of _ m]) (simp add: percentage_change_same)
qed

text \<open>
  C10. On a frame of exactly one row the metrics are computed (nothing is raised)
  and the sales standard deviation of the historical aggregates is \<^verbatim>\<open>nan\<close>, not 0;
  the historical dictionary is present with its week count of 1.
\<close>

theorem single_record_std_nan:
  "\<exists>m h. calculate_metrics srt (Some [r]) = Inr m \<and> historical m = Some h
      \<and> sales_std_dev h = NaN \<and> sales_std_dev h \<noteq> Finite 0 \<and> weeks_count h = 1"
  using calculate_metrics_nonempty[of "[r]" srt]
  by (auto simp: calculate_historical_metrics_def pd_std_def)

section \<open>Status and qualifier\<close>

text \<open>
  C8. The status of a change \<open>c\<close> is excellent from 10, good from 5, fair from 0,
  concerning from -5 and critical below; the qualifier of \<open>|c|\<close> is dramatically from
  20, significantly from 10, moderately from 5 and slightly below. So 5.526 is good
  and moderately.
\<close>

theorem status_and_qualifier_table:
  "(10 \<le> c \<longrightarrow> get_status_level c = ''excellent'')
   \<and> (c < 10 \<and> 5 \<le> c \<longrightarrow> get_status_level c = ''good'')
   \<and> (c < 5 \<and> 0 \<le> c \<longrightarrow> get_status_level c = ''fair'')
   \<and> (c < 0 \<and> - 5 \<le> c \<longrightarrow> get_status_level c = ''concerning'')
   \<and> (c < - 5 \<longrightarrow> get_status_level c = ''critical'')
   \<and> (20 \<le> \<bar>c\<bar> \<longrightarrow> get_performance_qualifier c = ''dramatically'')
   \<and> (\<bar>c\<bar> < 20 \<and> 10 \<le> \<bar>c\<bar> \<longrightarrow> get_performance_qualifier c = ''significantly'')
   \<and> (\<bar>c\<bar> < 10 \<and> 5 \<le> \<bar>c\<bar> \<longrightarrow> get_performance_qualifier c = ''moderately'')
   \<and> (\<bar>c\<bar> < 5 \<longrightarrow> get_performance_qualifier c = ''slightly'')"
  by (simp add: get_status_level_def get_performance_qualifier_def)

theorem status_and_qualifier_table_witness:
  "get_status_level 5.526 = ''good'' \<and> get_performance_qualifier 5.526 = ''moderately''"
  using status_and_qualifier_table[of "5.526"] by simp

section \<open>Validation\<close>

lemma validate_result:
  "snd (validate_data_integrity data) =
     (if list_ex (\<lambda>r. Total_Sales r < 0) data \<or> list_ex (\<lambda>r. Total_Orders r < 0) data
      then Inl (ValueError ''Data contains negative values for sales or orders'')
      else if list_ex (\<lambda>r. Week_End r \<le> Week_Start r) data
      then Inl (ValueError ''Data contains weeks where end date is before start date'')
      else Inr ())"
  by (simp add: validate_data_integrity_def Let_def)

lemma validated_nonneg:
  assumes "snd (validate_data_integrity data) = Inr ()" and "r \<in> set data"
  shows "0 \<le> Total_Sales r \<and> 0 \<le> Total_Orders r"
proof -
  have "\<not> (list_ex (\<lambda>r. Total_Sales r < 0) data \<or> list_ex (\<lambda>r. Total_Orders r < 0) data)"
    using assms(1) by (auto simp: validate_result)
  then have "\<forall>r\<in>set data. \<not> Total_Sales r < 0" "\<forall>r\<in>set data. \<not> Total_Orders r < 0"
    by (simp_all add: list_ex_iff)
  with assms(2) show ?thesis by (simp add: not_less)
qed

lemma sample_data_validated: "snd (validate_data_integrity sample_data) = Inr ()"
  by (simp add: validate_result) (simp add: sample_data_def mk_row_def)

lemma outlier_frame_median: "pd_median (map Total_Sales outlier_and_date_frame) = Finite 1"
  by (simp add: pd_median_def outlier_and_date_frame_def mk_row_def Let_def)

lemma outlier_frame_outlier: "sales_outlier outlier_and_date_frame"
  by (simp add: sales_outlier_def outlier_frame_median)
     (simp add: outlier_and_date_frame_def mk_row_def)

lemma outlier_frame_checks:
  "\<not> (list_ex (\<lambda>r. Total_Sales r < 0) outlier_and_date_frame
       \<or> list_ex (\<lambda>r. Total_Orders r < 0) outlier_and_date_frame)"
  "list_ex (\<lambda>r. Week_End r \<le> Week_Start r) outlier_and_date_frame"
  by (simp_all add: outlier_and_date_frame_def mk_row_def)

text \<open>
  C6, as the specification states it: checks run in the order negative values, date
  range, soft check. On a frame with both an unusually high sales value and an inverted
  week the code has already logged the warning when the date check raises; under the
  stated order nothing would be logged.
\<close>

theorem validation_order_counterexample:
  "validate_data_integrity outlier_and_date_frame =
     ([''Data contains unusually high sales values''],
      Inl (ValueError ''Data contains weeks where end date is before start date''))
   \<and> validate_spec_order outlier_and_date_frame =
     ([], Inl (ValueError ''Data contains weeks where end date is before start date''))"
proof -
  have "validate_data_integrity outlier_and_date_frame =
     ([''Data contains unusually high sales values''],
      Inl (ValueError ''Data contains weeks where end date is before start date''))"
    using outlier_frame_checks outlier_frame_outlier
    by (simp add: validate_data_integrity_def sales_outlier_def Let_def)
  moreover have "validate_spec_order outlier_and_date_frame =
     ([], Inl (ValueError ''Data contains weeks where end date is before start date''))"
    using outlier_frame_checks by (simp add: validate_spec_order_def)
  ultimately show ?thesis by simp
qed

text \<open>
  C6, amended. The validation checks, in this order: (1) a negative sales or orders
  value raises \<^verbatim>\<open>ValueError\<close> for negative values, and nothing is logged; (2)
  otherwise a sales value above ten times the median sales is logged as a warning and
  never raises; (3) then a row whose week end is not after its week start raises
  \<^verbatim>\<open>ValueError\<close> for the dates, and otherwise the validation returns normally.
\<close>

theorem validation_order:
  "(list_ex (\<lambda>r. Total_Sales r < 0) data \<or> list_ex (\<lambda>r. Total_Orders r < 0) data \<longrightarrow>
      validate_data_integrity data =
        ([], Inl (ValueError ''Data contains negative values for sales or orders'')))
   \<and> (\<not> (list_ex (\<lambda>r. Total_Sales r < 0) data \<or> list_ex (\<lambda>r. Total_Orders r < 0) data) \<longrightarrow>
        fst (validate_data_integrity data) =
          (if sales_outlier data then [''Data contains unusually high sales values''] else [])
      \<and> snd (validate_data_integrity data) =
          (if list_ex (\<lambda>r. Week_End r \<le> Week_Start r) data
           then Inl (ValueError ''Data contains weeks where end date is before start date'')
           else Inr ()))"
  by (simp add: validate_data_integrity_def sales_outlier_def Let_def)

theorem validation_order_witness:
  "validate_data_integrity negative_frame =
        ([], Inl (ValueError ''Data contains negative values for sales or orders''))
   \<and> fst (validate_data_integrity outlier_and_date_frame) =
        [''Data contains unusually high sales values'']
   \<and> snd (validate_data_integrity outlier_and_date_frame) =
        Inl (ValueError ''Data contains weeks where end date is before start date'')
   \<and> snd (validate_data_integrity sample_data) = Inr ()"
proof -
  have n: "list_ex (\<lambda>r. Total_Sales r < 0) negative_frame"
    by (simp add: negative_frame_def mk_row_def)
  have s: "\<not> (list_ex (\<lambda>r. Total_Sales r < 0) sample_data
              \<or> list_ex (\<lambda>r. Total_Orders r < 0) sample_data)"
    "\<not> list_ex (\<lambda>r. Week_End r \<le> Week_Start r) sample_data"
    by (simp_all add: sample_data_def mk_row_def)
  show ?thesis
    using validation_order[of negative_frame] validation_order[of outlier_and_date_frame]
      validation_order[of sample_data] n outlier_frame_checks outlier_frame_outlier s
    by simp
qed

section \<open>Trend fields\<close>

text \<open>
  C4. The trend dictionary carries the marker \<^verbatim>\<open>status = insufficient_data\<close> exactly
  when the frame has fewer than 3 rows, and then it has no other key; with 3 or more
  rows it has no status key and carries the slope, the direction (derived from the
  slope) and the volatility of sales and of orders.
\<close>

theorem trend_fields:
  "((length data < 3) =
      (map_of (calculate_trends data) ''status'' = Some (PyStr ''insufficient_data'')))
   \<and> (length data < 3 \<longrightarrow> map fst (calculate_trends data) = [''status''])
   \<and> (3 \<le> length data \<longrightarrow>
        map_of (calculate_trends data) ''status'' = None
      \<and> (\<exists>ss os sv ov.
            map_of (calculate_trends data) ''sales_trend_slope'' = Some (PyFloat (Finite ss))
          \<and> map_of (calculate_trends data) ''orders_trend_slope'' = Some (PyFloat (Finite os))
          \<and> map_of (calculate_trends data) ''sales_trend_direction''
               = Some (PyStr (trend_direction ss))
          \<and> map_of (calculate_trends data) ''orders_trend_direction''
               = Some (PyStr (trend_direction os))
          \<and> map_of (calculate_trends data) ''sales_volatility'' = Some (PyFloat sv)
          \<and> map_of (calculate_trends data) ''orders_volatility'' = Some (PyFloat ov)))"
  by (simp add: calculate_trends_def Let_def)

theorem trend_fields_witness:
  "map fst (calculate_trends negative_frame) = [''status'']
   \<and> map_of (calculate_trends sample_data) ''status'' = None
   \<and> (\<exists>sv. map_of (calculate_trends sample_data) ''sales_volatility'' = Some (PyFloat sv))"
proof -
  have a: "length negative_frame < 3" by (simp add: negative_frame_def)
  have b: "3 \<le> length sample_data" by (simp add: sample_data_def)
  show ?thesis
    using trend_fields[of negative_frame] trend_fields[of sample_data] a b by auto
qed

section \<open>Growth rate\<close>

lemma root_power_round_trip:
  assumes "0 \<le> x" and "0 < n"
  shows "\<exists>p. np_power x (1 / real n) = Finite p \<and> p ^ n = x"
proof (cases "x = 0")
  case True
  with assms show ?thesis by (simp add: np_power_def)
next
  case False
  with assms have x: "0 < x" by simp
  have "(x powr (1 / real n)) ^ n = x powr (real n * (1 / real n))"
    using x by (simp add: powr_power)
  also have "\<dots> = x" using assms x by simp
  finally show ?thesis using x by (simp add: np_power_def)
qed

lemma growth_rate_column:
  assumes "2 \<le> length col" and "0 < hd col" and "0 \<le> last col"
  shows "\<exists>rate. calculate_growth_rate col = Finite rate
           \<and> hd col * (1 + rate / 100) ^ (length col - 1) = last col"
proof -
  from assms have q: "0 \<le> last col / hd col" by simp
  from assms have n: "0 < length col - 1" by simp
  from root_power_round_trip[OF q n] obtain p where
    p: "np_power (last col / hd col) (1 / real (length col - 1)) = Finite p"
      "p ^ (length col - 1) = last col / hd col" by blast
  have "calculate_growth_rate col = Finite ((p - 1) * 100)"
    using assms p(1) by (simp add: calculate_growth_rate_def Let_def)
  moreover have "1 + ((p - 1) * 100) / 100 = p" by (simp add: field_simps)
  then have "hd col * (1 + ((p - 1) * 100) / 100) ^ (length col - 1) = last col"
    using p(2) assms by simp
  ultimately show ?thesis by blast
qed

lemma growth_rate_zero:
  "length col < 2 \<or> hd col \<le> 0 \<Longrightarrow> calculate_growth_rate col = Finite 0"
  by (auto simp: calculate_growth_rate_def Let_def)

lemma growth_rate_frame:
  assumes "\<forall>r\<in>set data. 0 \<le> f r" and "0 < f (hd data)" and "1 \<le> length data - 1"
  shows "\<exists>rate. calculate_growth_rate (map f data) = Finite rate
           \<and> f (hd data) * (1 + rate / 100) ^ (length data - 1) = f (last data)"
proof -
  from assms(3) have ne: "data \<noteq> []" by auto
  have "2 \<le> length (map f data)" using assms(3) by simp
  moreover have "0 < hd (map f data)" using assms(2) ne by (simp add: hd_map)
  moreover have "0 \<le> last (map f data)" using assms(1) ne by (simp add: last_map)
  ultimately show ?thesis
    using growth_rate_column[of "map f data"] ne by (simp add: hd_map last_map)
qed

lemma growth_rate_frame_zero:
  assumes "f (hd data) \<le> 0 \<or> length data - 1 < 1"
  shows "calculate_growth_rate (map f data) = Finite 0"
proof (cases "data = []")
  case True
  then show ?thesis by (simp add: growth_rate_zero)
next
  case False
  with assms show ?thesis by (auto intro!: growth_rate_zero simp: hd_map)
qed

lemma sample_sales:
  "map Total_Sales sample_data = [12500, 15800, 14200, 16950, 18100, 17500, 19000, 20050]"
  by (simp add: sample_data_def mk_row_def)

lemma sample_data_ends:
  "Total_Sales (hd sample_data) = 12500" "Total_Sales (last sample_data) = 20050"
  "Total_Orders (hd sample_data) = 45" "Total_Orders (last sample_data) = 65"
  "length sample_data = 8"
  by (simp_all add: sample_data_def mk_row_def)

text \<open>
  C3. On a validated frame (no negative sales or orders) whose first value \<open>v0\<close> is
  positive and which spans \<open>N = count - 1 \<ge> 1\<close> periods, the growth rate is a finite
  number \<open>rate\<close> with \<open>v0 * (1 + rate/100)^N = vN\<close>, for the sales column and for the
  orders column; when \<open>v0 \<le> 0\<close> or \<open>N < 1\<close> the growth rate is 0. Floats are reals here,
  so the equation is exact.
\<close>

theorem growth_rate_round_trip:
  assumes "snd (validate_data_integrity data) = Inr ()"
  shows "(0 < Total_Sales (hd data) \<and> 1 \<le> length data - 1 \<longrightarrow>
           (\<exists>rate. calculate_growth_rate (map Total_Sales data) = Finite rate
              \<and> Total_Sales (hd data) * (1 + rate / 100) ^ (length data - 1)
                  = Total_Sales (last data)))
       \<and> (0 < Total_Orders (hd data) \<and> 1 \<le> length data - 1 \<longrightarrow>
           (\<exists>rate. calculate_growth_rate (map (\<lambda>r. real_of_int (Total_Orders r)) data)
                      = Finite rate
              \<and> real_of_int (Total_Orders (hd data)) * (1 + rate / 100) ^ (length data - 1)
                  = real_of_int (Total_Orders (last data))))
       \<and> (Total_Sales (hd data) \<le> 0 \<or> length data - 1 < 1 \<longrightarrow>
            calculate_growth_rate (map Total_Sales data) = Finite 0)
       \<and> (Total_Orders (hd data) \<le> 0 \<or> length data - 1 < 1 \<longrightarrow>
            calculate_growth_rate (map (\<lambda>r. real_of_int (Total_Orders r)) data) = Finite 0)"
proof -
  have s: "\<forall>r\<in>set data. 0 \<le> Total_Sales r"
    and o: "\<forall>r\<in>set data. 0 \<le> real_of_int (Total_Orders r)"
    using validated_nonneg[OF assms] by simp_all
  have 1: "0 < Total_Sales (hd data) \<and> 1 \<le> length data - 1 \<longrightarrow>
           (\<exists>rate. calculate_growth_rate (map Total_Sales data) = Finite rate
              \<and> Total_Sales (hd data) * (1 + rate / 100) ^ (length data - 1)
                  = Total_Sales (last data))"
    using growth_rate_frame[of data Total_Sales, OF s] by blast
  have 2: "0 < Total_Orders (hd data) \<and> 1 \<le> length data - 1 \<longrightarrow>
           (\<exists>rate. calculate_growth_rate (map (\<lambda>r. real_of_int (Total_Orders r)) data)
                      = Finite rate
              \<and> real_of_int (Total_Orders (hd data)) * (1 + rate / 100) ^ (length data - 1)
                  = real_of_int (Total_Orders (last data)))"
    using growth_rate_frame[of data "\<lambda>r. real_of_int (Total_Orders r)", OF o] by simp
  have 3: "Total_Sales (hd data) \<le> 0 \<or> length data - 1 < 1 \<longrightarrow>
            calculate_growth_rate (map Total_Sales data) = Finite 0"
    using growth_rate_frame_zero[of Total_Sales data] by blast
  have 4: "Total_Orders (hd data) \<le> 0 \<or> length data - 1 < 1 \<longrightarrow>
            calculate_growth_rate (map (\<lambda>r. real_of_int (Total_Orders r)) data) = Finite 0"
    using growth_rate_frame_zero[of "\<lambda>r. real_of_int (Total_Orders r)" data] by simp
  from 1 2 3 4 show ?thesis by blast
qed

theorem growth_rate_round_trip_witness:
  "(\<exists>rate. calculate_growth_rate (map Total_Sales sample_data) = Finite rate
       \<and> 12500 * (1 + rate / 100) ^ 7 = (20050::real))
   \<and> (\<exists>rate. calculate_growth_rate (map (\<lambda>r. real_of_int (Total_Orders r)) sample_data)
                = Finite rate
       \<and> 45 * (1 + rate / 100) ^ 7 = (65::real))"
  using growth_rate_round_trip[OF sample_data_validated] by (simp add: sample_data_ends)

section \<open>Recommendations\<close>

lemma recommendation_categories:
  "category rec_sales_recovery \<noteq> ''Growth Acceleration''"
  "category rec_growth_optimization \<noteq> ''Growth Acceleration''"
  "category rec_customer_acquisition \<noteq> ''Growth Acceleration''"
  "category rec_revenue_optimization \<noteq> ''Growth Acceleration''"
  "category rec_product_strategy \<noteq> ''Growth Acceleration''"
  "category rec_business_stability \<noteq> ''Growth Acceleration''"
  "category rec_growth_acceleration = ''Growth Acceleration''"
  by (simp_all add: rec_sales_recovery_def rec_growth_optimization_def
      rec_customer_acquisition_def rec_revenue_optimization_def rec_product_strategy_def
      rec_business_stability_def rec_growth_acceleration_def)

lemma np_less_between:
  "(np_less (Finite a) x \<and> np_less x (Finite b)) = (\<exists>g. x = Finite g \<and> a < g \<and> g < b)"
  by (cases x) auto

lemma sales_recommendations_other:
  "\<not> list_ex (\<lambda>r. category r = ''Growth Acceleration'') (sales_recommendations m)"
  by (simp add: sales_recommendations_def recommendation_categories Let_def)

lemma order_recommendations_other:
  "\<not> list_ex (\<lambda>r. category r = ''Growth Acceleration'') (order_recommendations m)"
  by (simp add: order_recommendations_def recommendation_categories Let_def)

lemma product_recommendations_other:
  "\<not> list_ex (\<lambda>r. category r = ''Growth Acceleration'') (product_recommendations m)"
  by (simp add: product_recommendations_def recommendation_categories split: option.splits)

lemma trend_recommendations_other:
  "trend_recommendations m = Inr rs \<Longrightarrow>
     \<not> list_ex (\<lambda>r. category r = ''Growth Acceleration'') rs"
  by (auto simp: trend_recommendations_def recommendation_categories
      split: option.splits if_splits sum.splits)

lemma growth_recommendations_fire:
  "list_ex (\<lambda>r. category r = ''Growth Acceleration'') (growth_recommendations m)
     = (\<exists>h g. historical m = Some h \<and> sales_growth_rate h = Finite g \<and> 0 < g \<and> g < 5)"
  by (simp add: growth_recommendations_def recommendation_categories np_less_between Let_def
      split: option.splits)

text \<open>The recommendations never raise on metrics that \<^verbatim>\<open>calculate_metrics\<close> returned.\<close>

lemma trend_recommendations_total:
  "trends m = Some (calculate_trends data) \<Longrightarrow> \<exists>rs. trend_recommendations m = Inr rs"
  by (simp add: trend_recommendations_def calculate_trends_def dict_item_def Let_def)

lemma recommendations_total:
  assumes "calculate_metrics srt (Some data) = Inr m"
  shows "\<exists>recs. generate_recommendations m = Inr recs"
proof -
  from assms have ne: "data \<noteq> []"
    by (auto simp: calculate_metrics_def iloc_empty)
  with calculate_metrics_nonempty[OF ne, of srt] assms have "trends m = Some (calculate_trends data)"
    by auto
  from trend_recommendations_total[OF this] show ?thesis
    by (auto simp: generate_recommendations_def)
qed

lemma growth_metrics_recommendations:
  "generate_recommendations (growth_metrics g) =
     Inr (if np_less (Finite 0) g \<and> np_less g (Finite 5) then [rec_growth_acceleration] else [])"
  by (simp add: generate_recommendations_def trend_recommendations_def growth_metrics_def
      sales_recommendations_def order_recommendations_def product_recommendations_def
      growth_recommendations_def)

text \<open>The growth rate of the sample scenario lies above 5 (it is about 6.97).\<close>

lemma sample_ratio_bound: "(1.05::real) < (20050 / 12500) powr (1 / 7)"
proof -
  have "(1.05::real) ^ 7 = 14071004226562500 / 10000000000000000"
    by (simp add: power_numeral_reduce)
  then have a: "(1.05::real) ^ 7 < 20050 / 12500" by simp
  have "((1.05::real) ^ 7) powr (1 / 7) = (1.05 powr real 7) powr (1 / 7)"
    by (subst powr_realpow) simp_all
  also have "\<dots> = 1.05 powr (real 7 * (1 / 7))" by (rule powr_powr)
  also have "\<dots> = 1.05" by simp
  finally have "(1.05::real) = ((1.05::real) ^ 7) powr (1 / 7)" by simp
  also have "\<dots> < (20050 / 12500) powr (1 / 7)"
    using a by (intro powr_less_mono2) simp_all
  finally show ?thesis .
qed

lemma growth_rate_positive_col:
  assumes "2 \<le> length col" and "0 < hd col" and "0 < last col"
  shows "calculate_growth_rate col
           = Finite (((last col / hd col) powr (1 / real (length col - 1)) - 1) * 100)"
  using assms by (simp add: calculate_growth_rate_def np_power_def Let_def)

lemma sample_growth_rate:
  "\<exists>g. calculate_growth_rate (map Total_Sales sample_data) = Finite g \<and> 5 < g"
proof -
  let ?c = "[12500, 15800, 14200, 16950, 18100, 17500, 19000, 20050::real]"
  have "2 \<le> length ?c" "0 < hd ?c" "0 < last ?c" by simp_all
  from growth_rate_positive_col[OF this] have
    "calculate_growth_rate ?c
       = Finite (((last ?c / hd ?c) powr (1 / real (length ?c - 1)) - 1) * 100)" .
  moreover have "last ?c = 20050" "hd ?c = 12500" "real (length ?c - 1) = 7" by simp_all
  ultimately have "calculate_growth_rate (map Total_Sales sample_data)
                     = Finite (((20050 / 12500) powr (1 / 7) - 1) * 100)"
    unfolding sample_sales by (simp only:)
  moreover have "5 < (((20050 / 12500::real) powr (1 / 7) - 1) * 100)"
    using sample_ratio_bound by simp
  ultimately show ?thesis by blast
qed

text \<open>
  C9. When the recommendations are generated, an entry of category Growth
  Acceleration is in the list if and only if the metrics have historical aggregates
  whose sales growth rate is a number strictly between 0 and 5. So a rate of 0, of 5
  or above 5, as in the sample scenario, gives no such entry.
\<close>

theorem growth_acceleration_iff:
  assumes "generate_recommendations m = Inr recs"
  shows "list_ex (\<lambda>r. category r = ''Growth Acceleration'') recs
     = (\<exists>h g. historical m = Some h \<and> sales_growth_rate h = Finite g \<and> 0 < g \<and> g < 5)"
proof -
  from assms obtain rs where rs: "trend_recommendations m = Inr rs"
    and recs: "recs = sales_recommendations m @ order_recommendations m
                 @ product_recommendations m @ rs @ growth_recommendations m"
    by (auto simp: generate_recommendations_def split: sum.splits)
  show ?thesis
    unfolding recs
    using sales_recommendations_other[of m] order_recommendations_other[of m]
      product_recommendations_other[of m] trend_recommendations_other[OF rs]
    by (simp add: growth_recommendations_fire)
qed

theorem growth_acceleration_iff_witness:
  "generate_recommendations (growth_metrics (Finite 3)) = Inr [rec_growth_acceleration]
   \<and> list_ex (\<lambda>r. category r = ''Growth Acceleration'') [rec_growth_acceleration]
   \<and> generate_recommendations (growth_metrics (Finite 5)) = Inr []
   \<and> generate_recommendations (growth_metrics (Finite 0)) = Inr []
   \<and> (\<exists>m recs. calculate_metrics (sort_key snd) (Some sample_data) = Inr m
         \<and> generate_recommendations m = Inr recs
         \<and> \<not> list_ex (\<lambda>r. category r = ''Growth Acceleration'') recs)"
proof -
  have a: "generate_recommendations (growth_metrics (Finite 3)) = Inr [rec_growth_acceleration]"
    by (simp add: growth_metrics_recommendations)
  have b: "generate_recommendations (growth_metrics (Finite 5)) = Inr []"
    "generate_recommendations (growth_metrics (Finite 0)) = Inr []"
    by (simp_all add: growth_metrics_recommendations)
  have h: "historical (growth_metrics (Finite 3))
             = Some (calculate_historical_metrics []\<lparr> sales_growth_rate := Finite 3 \<rparr>)"
    by (simp add: growth_metrics_def)
  have fire: "list_ex (\<lambda>r. category r = ''Growth Acceleration'') [rec_growth_acceleration]"
    using growth_acceleration_iff[OF a] h by simp
  obtain m where m: "calculate_metrics (sort_key snd) (Some sample_data) = Inr m"
    and hm: "historical m = Some (calculate_historical_metrics sample_data)"
    using calculate_metrics_nonempty[OF sample_data_nonempty, of "sort_key snd"] by blast
  obtain recs where recs: "generate_recommendations m = Inr recs"
    using recommendations_total[OF m] by blast
  obtain g where g: "calculate_growth_rate (map Total_Sales sample_data) = Finite g" "5 < g"
    using sample_growth_rate by blast
  have "sales_growth_rate (calculate_historical_metrics sample_data) = Finite g"
    using g(1) by (simp add: calculate_historical_metrics_def)
  with growth_acceleration_iff[OF recs] hm g(2)
  have "\<not> list_ex (\<lambda>r. category r = ''Growth Acceleration'') recs" by simp
  with m recs a b fire show ?thesis by blast
qed

section \<open>Most frequent labels\<close>













subsection \<open>When the sort is stable\<close>







subsection \<open>With any sort by count\<close>










subsection \<open>Two frames with ties\<close>



















end
